theory Spec2Isabelle
  imports Main
begin

section \<open>Python strings\<close>

text \<open>
  Strings are lists of characters, a character being a code point below 256.  The white
  space of \<open>strip\<close> and \<open>split\<close> is that of \<open>str.isspace\<close> in this range: tab, line
  feed, vertical tab, form feed, carriage return, the four separators 0x1C to 0x1F, space,
  next line (0x85) and no-break space (0xA0).  \<open>lower\<close> and \<open>upper\<close> change the 26
  letters of ASCII only: the program uses \<open>lower\<close> to look a name up in tables whose keys
  are ASCII, which no other letter reaches, and \<open>upper\<close> and \<open>capitalize\<close> for the text
  of log records.
\<close>

definition lower_char :: "char \<Rightarrow> char" where
  "lower_char c =
     (case map_of (zip ''ABCDEFGHIJKLMNOPQRSTUVWXYZ'' ''abcdefghijklmnopqrstuvwxyz'') c of
        Some d \<Rightarrow> d | None \<Rightarrow> c)"

definition upper_char :: "char \<Rightarrow> char" where
  "upper_char c =
     (case map_of (zip ''abcdefghijklmnopqrstuvwxyz'' ''ABCDEFGHIJKLMNOPQRSTUVWXYZ'') c of
        Some d \<Rightarrow> d | None \<Rightarrow> c)"

definition str_lower :: "string \<Rightarrow> string" where
  "str_lower s = map lower_char s"

definition str_upper :: "string \<Rightarrow> string" where
  "str_upper s = map upper_char s"

fun str_capitalize :: "string \<Rightarrow> string" where
  "str_capitalize [] = []"
| "str_capitalize (c # cs) = upper_char c # str_lower cs"

definition isspace :: "char \<Rightarrow> bool" where
  "isspace c = (c \<in> set [CHR 0x09, CHR 0x0A, CHR 0x0B, CHR 0x0C, CHR 0x0D,
                           CHR 0x1C, CHR 0x1D, CHR 0x1E, CHR 0x1F, CHR '' '',
                           CHR 0x85, CHR 0xA0])"

definition str_strip :: "string \<Rightarrow> string" where
  "str_strip s = rev (dropWhile isspace (rev (dropWhile isspace s)))"

text \<open>\<open>s.split()\<close>: the maximal runs of non-space characters, in order; \<open>cur\<close> is the run
  being read.\<close>

fun split_from :: "string \<Rightarrow> string \<Rightarrow> string list" where
  "split_from cur [] = (if cur = [] then [] else [cur])"
| "split_from cur (c # cs) =
     (if isspace c then (if cur = [] then split_from [] cs else cur # split_from [] cs)
      else split_from (cur @ [c]) cs)"

definition str_split :: "string \<Rightarrow> string list" where
  "str_split s = split_from [] s"

fun str_join :: "string \<Rightarrow> string list \<Rightarrow> string" where
  "str_join sep [] = []"
| "str_join sep [x] = x"
| "str_join sep (x # y # ys) = x @ sep @ str_join sep (y # ys)"

definition startswith :: "string \<Rightarrow> string \<Rightarrow> bool" where
  "startswith s p = (take (length p) s = p)"

text \<open>\<open>str(n)\<close> of an integer: its decimal digits, with a minus sign below zero.\<close>

fun digits :: "nat \<Rightarrow> string" where
  "digits n = (if n < 10 then [''0123456789'' ! n]
               else digits (n div 10) @ [''0123456789'' ! (n mod 10)])"

definition str_of_int :: "int \<Rightarrow> string" where
  "str_of_int i = (if i < 0 then CHR ''-'' # digits (nat (- i)) else digits (nat i))"

section \<open>Key vocabulary\<close>

text \<open>The members of pynput's \<open>Key\<close> that the tables name.\<close>

datatype Key =
    Key_cmd | Key_alt | Key_ctrl | Key_shift
  | Key_space | Key_enter | Key_tab | Key_backspace | Key_delete | Key_esc
  | Key_up | Key_down | Key_left | Key_right
  | Key_home | Key_end | Key_page_up | Key_page_down
  | Key_f1 | Key_f2 | Key_f3 | Key_f4 | Key_f5 | Key_f6
  | Key_f7 | Key_f8 | Key_f9 | Key_f10 | Key_f11 | Key_f12

definition MODIFIERS :: "string \<rightharpoonup> Key" where
  "MODIFIERS = map_of
     [(''command'', Key_cmd), (''cmd'', Key_cmd),
      (''option'', Key_alt), (''opt'', Key_alt), (''alt'', Key_alt),
      (''control'', Key_ctrl), (''ctrl'', Key_ctrl),
      (''shift'', Key_shift)]"

definition SPECIAL_KEYS :: "string \<rightharpoonup> Key" where
  "SPECIAL_KEYS = map_of
     [(''space'', Key_space), (''enter'', Key_enter), (''return'', Key_enter),
      (''tab'', Key_tab), (''backspace'', Key_backspace), (''delete'', Key_delete),
      (''esc'', Key_esc), (''escape'', Key_esc),
      (''up'', Key_up), (''down'', Key_down), (''left'', Key_left), (''right'', Key_right),
      (''home'', Key_home), (''end'', Key_end),
      (''pageup'', Key_page_up), (''pagedown'', Key_page_down),
      (''f1'', Key_f1), (''f2'', Key_f2), (''f3'', Key_f3), (''f4'', Key_f4),
      (''f5'', Key_f5), (''f6'', Key_f6), (''f7'', Key_f7), (''f8'', Key_f8),
      (''f9'', Key_f9), (''f10'', Key_f10), (''f11'', Key_f11), (''f12'', Key_f12)]"

definition APPLESCRIPT_KEY_CODES :: "string \<rightharpoonup> nat" where
  "APPLESCRIPT_KEY_CODES = map_of
     [(''left'', 123), (''right'', 124), (''down'', 125), (''up'', 126)]"

section \<open>Configuration\<close>

text \<open>
  One entry of \<open>custom_shortcuts\<close>.  Each of the three fields may be missing from the
  entry, which \<open>shortcut.get\<close> answers with its default.
\<close>

record shortcut =
  sc_modifiers :: "string list option"
  sc_key :: "string option"
  sc_description :: "string option"

record config =
  osc_port :: int
  osc_ip :: string
  custom_shortcuts :: "string \<rightharpoonup> shortcut"

definition DEFAULT_CONFIG :: config where
  "DEFAULT_CONFIG = \<lparr>
     osc_port = 5005,
     osc_ip = ''0.0.0.0'',
     custom_shortcuts = map_of
       [(''/key/save'',
           \<lparr>sc_modifiers = Some [''command''], sc_key = Some ''s'',
            sc_description = Some ''Save''\<rparr>),
        (''/key/copy'',
           \<lparr>sc_modifiers = Some [''command''], sc_key = Some ''c'',
            sc_description = Some ''Copy''\<rparr>),
        (''/key/paste'',
           \<lparr>sc_modifiers = Some [''command''], sc_key = Some ''v'',
            sc_description = Some ''Paste''\<rparr>),
        (''/key/undo'',
           \<lparr>sc_modifiers = Some [''command''], sc_key = Some ''z'',
            sc_description = Some ''Undo''\<rparr>),
        (''/key/redo'',
           \<lparr>sc_modifiers = Some [''command'', ''shift''], sc_key = Some ''z'',
            sc_description = Some ''Redo''\<rparr>)]\<rparr>"

section \<open>Resolving an OSC message\<close>

text \<open>An OSC argument is a string or a number; \<open>str\<close> of a string is the string.  The
  numbers are the integers: floating-point arguments are left out.\<close>

datatype osc_arg = AStr string | AInt int

fun str :: "osc_arg \<Rightarrow> string" where
  "str (AStr s) = s"
| "str (AInt i) = str_of_int i"

fun isinstance_str :: "osc_arg \<Rightarrow> bool" where
  "isinstance_str (AStr s) = True"
| "isinstance_str (AInt i) = False"

text \<open>Truth value of an optional string: \<open>None\<close> and the empty string are false.\<close>

fun truthy :: "string option \<Rightarrow> bool" where
  "truthy None = False"
| "truthy (Some s) = (s \<noteq> [])"

definition build_key_path :: "string list \<Rightarrow> string option \<Rightarrow> string" where
  "build_key_path mods k =
     (let combo = (if truthy k
                   then str_join ''+'' (map str_capitalize mods @ [str_upper (the k)])
                   else str_join ''+'' (map str_capitalize mods))
      in ''/key/['' @ combo @ '']'')"

text \<open>
  The loop of \<open>handle_keypress\<close> that separates the modifiers from the main key: a token
  found in \<open>MODIFIERS\<close> is appended, the first other token is the key and ends the loop.
\<close>

fun separate :: "osc_arg list \<Rightarrow> string list \<Rightarrow> string list \<times> string option" where
  "separate [] modifiers = (modifiers, None)"
| "separate (arg # args) modifiers =
     (let arg_str = str_strip (str arg);
          arg_lower = str_lower arg_str
      in if arg_lower \<in> dom MODIFIERS then separate args (modifiers @ [arg_str])
         else (modifiers, Some arg_str))"

text \<open>
  What \<open>handle_keypress\<close> decides for a message: either it logs a line at level INFO and
  calls \<open>press_key_combo\<close> with modifiers and a key, or it logs a warning and returns.
\<close>

datatype outcome =
    Press string "string list" "string option"
  | Dropped string

definition handle_keypress_outcome :: "config \<Rightarrow> string \<Rightarrow> osc_arg list \<Rightarrow> outcome" where
  "handle_keypress_outcome cfg address args =
     (case custom_shortcuts cfg address of
        Some shortcut \<Rightarrow>
          (let shortcut_desc = (case sc_description shortcut of None \<Rightarrow> [] | Some d \<Rightarrow> d);
               mods = (case sc_modifiers shortcut of None \<Rightarrow> [] | Some ms \<Rightarrow> ms);
               k = sc_key shortcut;
               key_path = build_key_path mods k
           in if shortcut_desc \<noteq> []
              then Press (''OSC RECEIVED: '' @ address @ '' -> '' @ key_path
                            @ '' ('' @ shortcut_desc @ '')'') mods k
              else Press (''OSC RECEIVED: '' @ address @ '' -> '' @ key_path) mods k)
      | None \<Rightarrow>
          (let args1 =
                 (if args = [] \<and> startswith address ''/key/''
                  then (let key_from_address = str_strip (drop 5 address)
                        in if key_from_address \<noteq> [] then Some [AStr key_from_address]
                           else None)
                  else if args = [] then None
                  else Some args)
           in case args1 of
                None \<Rightarrow> Dropped (''OSC RECEIVED: '' @ address @ '' -> No arguments provided'')
              | Some args2 \<Rightarrow>
                  (let args3 =
                         (if length args2 = 1 \<and> isinstance_str (hd args2)
                               \<and> CHR '' '' \<in> set (str (hd args2))
                          then map AStr (str_split (str (hd args2)))
                          else args2);
                       (modifiers, key) = separate args3 []
                   in if truthy key \<or> modifiers \<noteq> []
                      then Press (''OSC RECEIVED: '' @ address @ '' -> ''
                                    @ build_key_path modifiers key) modifiers key
                      else Dropped (''OSC RECEIVED: '' @ address
                                      @ '' -> No valid key or modifier found''))))"


section \<open>The world the bridge acts on\<close>

text \<open>
  The module's global variables and everything the program reaches outside itself are one
  state: the configuration, the listener, the configuration file, the records handed to
  the logger, the key events the operating system has received, and the scripts handed
  to \<open>osascript\<close>.  Waiting (\<open>time.sleep\<close>) changes none of them and is left out.
\<close>

datatype level = INFO | WARNING | ERROR

datatype key_arg = Special Key | Character string

datatype kb_event = KbPress key_arg | KbRelease key_arg

text \<open>The configuration file: absent, present but failing to open or parse (with the
  exception's text), or holding a document.  A document is a JSON object whose fields
  have the types of the persisted layout; it may lack any of the three top-level fields.
  Other top-level keys are never read by the program and are left out.\<close>

record document =
  doc_port :: "int option"
  doc_ip :: "string option"
  doc_shortcuts :: "(string \<rightharpoonup> shortcut) option"

datatype file_state = Missing | Unreadable string | Stored document

record world =
  config :: config
  osc_server_instance :: "(string \<times> int) option"
  osc_thread :: bool
  disk :: file_state
  logged :: "(level \<times> string) list"
  kb :: "kb_event list"
  scripts :: "string list"

text \<open>
  What the libraries and the operating system answer is a parameter: whether a call of
  the keyboard controller raises (given the events delivered so far), what running
  \<open>osascript\<close> on a script gives, whether binding the UDP socket, writing the file and
  shutting the old server down raise.  \<open>Some\<close> carries the text of the exception.
\<close>

datatype run_result = Completed int string | RunRaised string

record env =
  kb_error :: "kb_event list \<Rightarrow> kb_event \<Rightarrow> string option"
  osascript :: "string \<Rightarrow> run_result"
  bind_error :: "string \<Rightarrow> int \<Rightarrow> string option"
  write_error :: "string option"
  shutdown_error :: "string option"

definition logger_info :: "string \<Rightarrow> world \<Rightarrow> world" where
  "logger_info msg w = w\<lparr>logged := logged w @ [(INFO, msg)]\<rparr>"

definition logger_warning :: "string \<Rightarrow> world \<Rightarrow> world" where
  "logger_warning msg w = w\<lparr>logged := logged w @ [(WARNING, msg)]\<rparr>"

definition logger_error :: "string \<Rightarrow> world \<Rightarrow> world" where
  "logger_error msg w = w\<lparr>logged := logged w @ [(ERROR, msg)]\<rparr>"

section \<open>Key executor\<close>

text \<open>A value a function returns: \<open>None\<close> or a boolean.\<close>

datatype pyval = PyNone | PyBool bool

fun modifier_part :: "string \<Rightarrow> string list" where
  "modifier_part m =
     (let mod_lower = str_lower m
      in if mod_lower \<in> set [''command'', ''cmd''] then [''command down'']
         else if mod_lower \<in> set [''option'', ''opt'', ''alt''] then [''option down'']
         else if mod_lower \<in> set [''control'', ''ctrl''] then [''control down'']
         else if mod_lower \<in> set [''shift''] then [''shift down'']
         else [])"

definition build_applescript :: "string list \<Rightarrow> string \<Rightarrow> string" where
  \<open>build_applescript modifiers key =
     (let modifier_parts = concat (map modifier_part modifiers);
          modifier_str = (if modifier_parts \<noteq> [] then str_join '', '' modifier_parts else []);
          key_lower = str_lower key
      in case APPLESCRIPT_KEY_CODES key_lower of
           Some key_code \<Rightarrow>
             (if modifier_str \<noteq> []
              then ''tell application "System Events" to key code '' @ digits key_code
                     @ '' using {'' @ modifier_str @ ''}''
              else ''tell application "System Events" to key code '' @ digits key_code)
         | None \<Rightarrow>
             (if modifier_str \<noteq> []
              then ''tell application "System Events" to keystroke "'' @ key
                     @ ''" using {'' @ modifier_str @ ''}''
              else ''tell application "System Events" to keystroke "'' @ key @ ''"''))\<close>

definition press_key_with_applescript ::
  "env \<Rightarrow> string list \<Rightarrow> string \<Rightarrow> world \<Rightarrow> pyval \<times> world" where
  "press_key_with_applescript e modifiers key w =
     (let applescript = build_applescript modifiers key;
          w1 = w\<lparr>scripts := scripts w @ [applescript]\<rparr>
      in case osascript e applescript of
           RunRaised x \<Rightarrow> (PyBool False, logger_error (''Error with AppleScript: '' @ x) w1)
         | Completed returncode stderr \<Rightarrow>
             (if returncode \<noteq> 0
              then (PyBool False, logger_error (''AppleScript error: '' @ stderr) w1)
              else (PyBool True, w1)))"

text \<open>The first loop of \<open>press_key_combo\<close>: modifier names to keys, a warning for each
  unknown name.  The list of modifiers is always given (\<open>handle_keypress\<close> never passes
  \<open>None\<close>).\<close>

fun convert_modifiers :: "string list \<Rightarrow> Key list \<Rightarrow> world \<Rightarrow> Key list \<times> world" where
  "convert_modifiers [] modifier_keys w = (modifier_keys, w)"
| "convert_modifiers (m # ms) modifier_keys w =
     (let mod_lower = str_lower m
      in case MODIFIERS mod_lower of
           Some k \<Rightarrow> convert_modifiers ms (modifier_keys @ [k]) w
         | None \<Rightarrow> convert_modifiers ms modifier_keys
                     (logger_warning (''Unknown modifier: '' @ m) w))"

text \<open>One call of \<open>keyboard.press\<close> or \<open>keyboard.release\<close>: it raises, or the event
  reaches the operating system.\<close>

definition keyboard_call :: "env \<Rightarrow> kb_event \<Rightarrow> world \<Rightarrow> string option \<times> world" where
  "keyboard_call e ev w =
     (case kb_error e (kb w) ev of
        Some x \<Rightarrow> (Some x, w)
      | None \<Rightarrow> (None, w\<lparr>kb := kb w @ [ev]\<rparr>))"

text \<open>Calls in sequence; an exception ends the sequence.\<close>

fun keyboard_calls :: "env \<Rightarrow> kb_event list \<Rightarrow> world \<Rightarrow> string option \<times> world" where
  "keyboard_calls e [] w = (None, w)"
| "keyboard_calls e (ev # evs) w =
     (case keyboard_call e ev w of
        (Some x, w1) \<Rightarrow> (Some x, w1)
      | (None, w1) \<Rightarrow> keyboard_calls e evs w1)"

definition combo_str :: "string list \<Rightarrow> string option \<Rightarrow> string" where
  "combo_str modifiers key =
     (case key of
        Some k \<Rightarrow> (if k \<noteq> [] then str_join ''+'' (map str_capitalize modifiers @ [str_upper k])
                   else str_join ''+'' (map str_capitalize modifiers))
      | None \<Rightarrow> str_join ''+'' (map str_capitalize modifiers))"

definition press_key_combo ::
  "env \<Rightarrow> string list \<Rightarrow> string option \<Rightarrow> world \<Rightarrow> pyval \<times> world" where
  "press_key_combo e modifiers key w =
     (let (modifier_keys, w1) = convert_modifiers modifiers [] w;
          main_key =
            (case key of
               None \<Rightarrow> None
             | Some k \<Rightarrow>
                 (if k = [] then None
                  else (case SPECIAL_KEYS (str_lower k) of
                          Some sk \<Rightarrow> Some (Special sk)
                        | None \<Rightarrow> Some (Character k))));
          w2 = logger_info (''PRESSING: /key/['' @ combo_str modifiers key @ '']'') w1;
          key_lower = (case key of None \<Rightarrow> None
                       | Some k \<Rightarrow> if k = [] then None else Some (str_lower k))
      in if (case key_lower of None \<Rightarrow> False | Some kl \<Rightarrow> kl \<in> dom APPLESCRIPT_KEY_CODES)
              \<and> modifiers \<noteq> []
         then (let w3 = logger_info ''Using AppleScript method for better app compatibility'' w2;
                   (success, w4) = press_key_with_applescript e modifiers (the key) w3
               in if success = PyBool True
                  then (PyNone,
                        logger_info (''SUCCESS: /key/['' @ combo_str modifiers key @ '']'') w4)
                  else (PyNone,
                        logger_error (''AppleScript method failed for /key/[''
                                        @ combo_str modifiers key @ '']'') w4))
         else (case keyboard_calls e (map (\<lambda>mod_key. KbPress (Special mod_key)) modifier_keys) w2 of
                 (Some x, w3) \<Rightarrow> (PyNone, logger_error (''ERROR pressing key combo: '' @ x) w3)
               | (None, w3) \<Rightarrow>
                   (case keyboard_calls e
                           (case main_key of None \<Rightarrow> []
                            | Some mk \<Rightarrow> [KbPress mk, KbRelease mk]) w3 of
                      (Some x, w4) \<Rightarrow>
                        (PyNone, logger_error (''ERROR pressing key combo: '' @ x) w4)
                    | (None, w4) \<Rightarrow>
                        (case keyboard_calls e
                                (map (\<lambda>mod_key. KbRelease (Special mod_key))
                                   (rev modifier_keys)) w4 of
                           (Some x, w5) \<Rightarrow>
                             (PyNone, logger_error (''ERROR pressing key combo: '' @ x) w5)
                         | (None, w5) \<Rightarrow>
                             (PyNone,
                              logger_info (''SUCCESS: /key/['' @ combo_str modifiers key
                                             @ '']'') w5)))))"

definition handle_keypress :: "env \<Rightarrow> string \<Rightarrow> osc_arg list \<Rightarrow> world \<Rightarrow> world" where
  "handle_keypress e address args w =
     (case handle_keypress_outcome (config w) address args of
        Press line mods k \<Rightarrow> snd (press_key_combo e mods k (logger_info line w))
      | Dropped line \<Rightarrow> logger_warning line w)"


section \<open>Persistence\<close>

definition document_of :: "config \<Rightarrow> document" where
  "document_of cfg =
     \<lparr>doc_port = Some (osc_port cfg), doc_ip = Some (osc_ip cfg),
      doc_shortcuts = Some (custom_shortcuts cfg)\<rparr>"

definition save_config :: "env \<Rightarrow> world \<Rightarrow> world" where
  "save_config e w =
     (case write_error e of
        Some x \<Rightarrow> logger_error (''Error saving config: '' @ x) w
      | None \<Rightarrow> logger_info ''Configuration saved'' (w\<lparr>disk := Stored (document_of (config w))\<rparr>))"

text \<open>\<open>config.update(loaded_config)\<close>: every top-level key of the loaded document is
  assigned, the other keys are left alone.  No operation embedded here changes a shortcut
  table in place, so the table that \<open>DEFAULT_CONFIG\<close> shares with its shallow copies
  stays the built-in one.\<close>

definition dict_update :: "config \<Rightarrow> document \<Rightarrow> config" where
  "dict_update cfg d =
     \<lparr>osc_port = (case doc_port d of Some p \<Rightarrow> p | None \<Rightarrow> osc_port cfg),
      osc_ip = (case doc_ip d of Some i \<Rightarrow> i | None \<Rightarrow> osc_ip cfg),
      custom_shortcuts =
        (case doc_shortcuts d of Some t \<Rightarrow> t | None \<Rightarrow> custom_shortcuts cfg)\<rparr>"

definition load_config :: "env \<Rightarrow> world \<Rightarrow> world" where
  "load_config e w =
     (case disk w of
        Stored loaded_config \<Rightarrow>
          logger_info ''Configuration loaded from file''
            (w\<lparr>config := dict_update (config w) loaded_config\<rparr>)
      | Missing \<Rightarrow> logger_info ''Created default configuration file'' (save_config e w)
      | Unreadable x \<Rightarrow>
          (logger_error (''Error loading config: '' @ x) w)\<lparr>config := DEFAULT_CONFIG\<rparr>)"

section \<open>OSC listener\<close>

text \<open>
  \<open>start_osc_server\<close> is the body of the listener thread, up to the point where
  \<open>serve_forever\<close> takes over: the server object is stored once its socket is bound, and
  an exception is logged inside the thread.
\<close>

definition start_osc_server :: "env \<Rightarrow> world \<Rightarrow> world" where
  "start_osc_server e w =
     (let ip = osc_ip (config w);
          port = osc_port (config w)
      in case bind_error e ip port of
           Some x \<Rightarrow> logger_error (''Error starting OSC server: '' @ x) w
         | None \<Rightarrow>
             logger_info (''OSC Server started on '' @ ip @ '':'' @ str_of_int port)
               (w\<lparr>osc_server_instance := Some (ip, port)\<rparr>))"

definition restart_osc_server :: "env \<Rightarrow> world \<Rightarrow> pyval \<times> world" where
  "restart_osc_server e w =
     (let stopped =
            (if osc_server_instance w \<noteq> None
             then (let w1 = logger_info ''Stopping OSC server...'' w
                   in case shutdown_error e of Some x \<Rightarrow> (Some x, w1) | None \<Rightarrow> (None, w1))
             else (None, w))
      in case stopped of
           (Some x, w1) \<Rightarrow> (PyBool False, logger_error (''Error restarting OSC server: '' @ x) w1)
         | (None, w1) \<Rightarrow>
             (let w2 = w1\<lparr>osc_server_instance := None\<rparr>;
                  w3 = start_osc_server e (w2\<lparr>osc_thread := True\<rparr>)
              in (PyBool True, logger_info ''OSC server restarted'' w3)))"

section \<open>Control surface\<close>

text \<open>The JSON body of a request to \<open>/api/config/osc\<close>: an object in which either field
  may be missing, or no object at all, in which case reading it raises.\<close>

record bind_request =
  req_ip :: "string option"
  req_port :: "int option"

datatype request_json = NoJson string | Json bind_request

record response =
  success :: bool
  message :: string

definition update_osc_config :: "env \<Rightarrow> request_json \<Rightarrow> world \<Rightarrow> response \<times> world" where
  "update_osc_config e body w =
     (case body of
        NoJson x \<Rightarrow> (\<lparr>success = False, message = x\<rparr>, w)
      | Json data \<Rightarrow>
          (let ip = (case req_ip data of Some i \<Rightarrow> i | None \<Rightarrow> ''127.0.0.1'');
               port = (case req_port data of Some p \<Rightarrow> p | None \<Rightarrow> 5005);
               w1 = w\<lparr>config := (config w)\<lparr>osc_ip := ip, osc_port := port\<rparr>\<rparr>;
               w2 = save_config e w1;
               (ok, w3) = restart_osc_server e w2
           in (\<lparr>success = (ok = PyBool True),
                message = (if ok = PyBool True then ''Configuration updated''
                           else ''Failed to restart server'')\<rparr>, w3)))"

section \<open>Reference descriptions and sample environments\<close>

text \<open>The keys \<open>press_key_combo\<close> presses for a list of modifier names, and its main key.\<close>

definition modifier_keys_of :: "string list \<Rightarrow> Key list" where
  "modifier_keys_of modifiers = List.map_filter (\<lambda>m. MODIFIERS (str_lower m)) modifiers"

definition main_key_of :: "string option \<Rightarrow> key_arg option" where
  "main_key_of key =
     (case key of
        None \<Rightarrow> None
      | Some k \<Rightarrow> (if k = [] then None
                   else (case SPECIAL_KEYS (str_lower k) of
                           Some sk \<Rightarrow> Some (Special sk) | None \<Rightarrow> Some (Character k))))"

text \<open>The direct backend as the design describes it: press each modifier in order, press
  and release the main key if there is one, release the modifiers in reverse order.\<close>

definition direct_events :: "string list \<Rightarrow> string option \<Rightarrow> kb_event list" where
  "direct_events modifiers key =
     map (\<lambda>k. KbPress (Special k)) (modifier_keys_of modifiers)
     @ (case main_key_of key of None \<Rightarrow> [] | Some mk \<Rightarrow> [KbPress mk, KbRelease mk])
     @ map (\<lambda>k. KbRelease (Special k)) (rev (modifier_keys_of modifiers))"

text \<open>The backend policy as the design describes it: an arrow key together with at least
  one modifier.\<close>

definition arrow_with_modifiers :: "string list \<Rightarrow> string option \<Rightarrow> bool" where
  "arrow_with_modifiers modifiers key =
     (case key of
        None \<Rightarrow> False
      | Some k \<Rightarrow> str_lower k \<in> set [''left'', ''right'', ''up'', ''down''] \<and> modifiers \<noteq> [])"

text \<open>Heuristic classification as the design describes it, on the trimmed tokens: the
  leading tokens that are modifier aliases, then the first token that is not.\<close>

definition is_modifier_token :: "string \<Rightarrow> bool" where
  "is_modifier_token t = (str_lower t \<in> dom MODIFIERS)"

definition classify :: "string list \<Rightarrow> string list \<times> string option" where
  "classify tokens =
     (takeWhile is_modifier_token tokens,
      case dropWhile is_modifier_token tokens of [] \<Rightarrow> None | t # rest \<Rightarrow> Some t)"

text \<open>The tokens that classification examines: the words of a single string argument
  that contains a space, otherwise the trimmed text of each argument.\<close>

definition arg_tokens :: "osc_arg list \<Rightarrow> string list" where
  "arg_tokens args =
     (if length args = 1 \<and> isinstance_str (hd args) \<and> CHR '' '' \<in> set (str (hd args))
      then str_split (str (hd args))
      else map (\<lambda>a. str_strip (str a)) args)"

text \<open>The command an outcome hands to \<open>press_key_combo\<close>, if any.\<close>

fun command_of :: "outcome \<Rightarrow> (string list \<times> string option) option" where
  "command_of (Press line mods k) = Some (mods, k)"
| "command_of (Dropped line) = None"

text \<open>A sequence of keyboard calls on the history of delivered events alone: the text of
  the first exception, if one is raised, and the history afterwards.\<close>

fun kb_run :: "env \<Rightarrow> kb_event list \<Rightarrow> kb_event list \<Rightarrow> string option \<times> kb_event list" where
  "kb_run e [] h = (None, h)"
| "kb_run e (ev # evs) h =
     (case kb_error e h ev of
        Some x \<Rightarrow> (Some x, h)
      | None \<Rightarrow> kb_run e evs (h @ [ev]))"

text \<open>Whether the scripting invocation exits with status 0, and whether the backend
  that the policy selects fails.\<close>

definition script_ok :: "env \<Rightarrow> string list \<Rightarrow> string \<Rightarrow> bool" where
  "script_ok e modifiers key =
     (case osascript e (build_applescript modifiers key) of
        Completed returncode stderr \<Rightarrow> returncode = 0
      | RunRaised x \<Rightarrow> False)"

definition backend_failed :: "env \<Rightarrow> string list \<Rightarrow> string option \<Rightarrow> world \<Rightarrow> bool" where
  "backend_failed e modifiers key w =
     (if arrow_with_modifiers modifiers key then \<not> script_ok e modifiers (the key)
      else fst (kb_run e (direct_events modifiers key) (kb w)) \<noteq> None)"

text \<open>A machine on which nothing fails; a keyboard controller that, like pynput's, raises
  \<open>ValueError\<close> for a character key that is not a single character; a machine on which the
  UDP port cannot be bound.\<close>

definition quiet_env :: env where
  "quiet_env = \<lparr>kb_error = (\<lambda>h ev. None), osascript = (\<lambda>s. Completed 0 []),
                bind_error = (\<lambda>ip port. None), write_error = None, shutdown_error = None\<rparr>"

fun single_character_only :: "kb_event list \<Rightarrow> kb_event \<Rightarrow> string option" where
  "single_character_only h (KbPress (Character s)) = (if length s = 1 then None else Some s)"
| "single_character_only h (KbRelease (Character s)) = (if length s = 1 then None else Some s)"
| "single_character_only h ev = None"

definition pynput_env :: env where
  "pynput_env = quiet_env\<lparr>kb_error := single_character_only\<rparr>"

definition port_taken_env :: env where
  "port_taken_env =
     quiet_env\<lparr>bind_error := (\<lambda>ip port. Some ''[Errno 48] Address already in use'')\<rparr>"

definition failing_script_env :: env where
  "failing_script_env = quiet_env\<lparr>osascript := (\<lambda>s. Completed 1 ''execution error'')\<rparr>"

text \<open>The state of the module right after import: \<open>config = DEFAULT_CONFIG.copy()\<close>, no
  server, no thread; and the same state with a listener running.\<close>

definition initial_world :: world where
  "initial_world =
     \<lparr>config = DEFAULT_CONFIG, osc_server_instance = None, osc_thread = False,
      disk = Missing, logged = [], kb = [], scripts = []\<rparr>"

definition running_world :: world where
  "running_world =
     initial_world\<lparr>osc_server_instance := Some (''0.0.0.0'', 5005), osc_thread := True,
                   disk := Stored (document_of DEFAULT_CONFIG)\<rparr>"


text \<open>A configuration file that holds an address and one shortcut and no port, and the
  state at start-up with that file on disk.\<close>

definition partial_document :: document where
  "partial_document =
     \<lparr>doc_port = None, doc_ip = Some ''127.0.0.1'',
      doc_shortcuts = Some (map_of
        [(''/key/quit'',
            \<lparr>sc_modifiers = Some [''command''], sc_key = Some ''q'',
             sc_description = None\<rparr>)])\<rparr>"

definition world_with_partial_document :: world where
  "world_with_partial_document = initial_world\<lparr>disk := Stored partial_document\<rparr>"

text \<open>The port a configuration file holds, if the file holds a document with a port.\<close>

fun stored_port :: "file_state \<Rightarrow> int option" where
  "stored_port (Stored d) = doc_port d"
| "stored_port Missing = None"
| "stored_port (Unreadable x) = None"

section \<open>Facts about the executor\<close>

lemma logger_info_fields [simp]:
  "logged (logger_info m w) = logged w @ [(INFO, m)]"
  "kb (logger_info m w) = kb w"
  "scripts (logger_info m w) = scripts w"
  "config (logger_info m w) = config w"
  "disk (logger_info m w) = disk w"
  "osc_server_instance (logger_info m w) = osc_server_instance w"
  "osc_thread (logger_info m w) = osc_thread w"
  by (simp_all add: logger_info_def)

lemma logger_warning_fields [simp]:
  "logged (logger_warning m w) = logged w @ [(WARNING, m)]"
  "kb (logger_warning m w) = kb w"
  "scripts (logger_warning m w) = scripts w"
  "config (logger_warning m w) = config w"
  "disk (logger_warning m w) = disk w"
  "osc_server_instance (logger_warning m w) = osc_server_instance w"
  "osc_thread (logger_warning m w) = osc_thread w"
  by (simp_all add: logger_warning_def)

lemma logger_error_fields [simp]:
  "logged (logger_error m w) = logged w @ [(ERROR, m)]"
  "kb (logger_error m w) = kb w"
  "scripts (logger_error m w) = scripts w"
  "config (logger_error m w) = config w"
  "disk (logger_error m w) = disk w"
  "osc_server_instance (logger_error m w) = osc_server_instance w"
  "osc_thread (logger_error m w) = osc_thread w"
  by (simp_all add: logger_error_def)

lemma modifier_keys_of_Cons:
  "modifier_keys_of (m # ms) =
     (case MODIFIERS (str_lower m) of Some k \<Rightarrow> k # modifier_keys_of ms | None \<Rightarrow> modifier_keys_of ms)"
  by (simp add: modifier_keys_of_def List.map_filter_simps split: option.splits)

lemma convert_modifiers_keys:
  "fst (convert_modifiers ms acc w) = acc @ modifier_keys_of ms"
proof (induction ms arbitrary: acc w)
  case Nil
  show ?case by (simp add: modifier_keys_of_def List.map_filter_simps)
next
  case (Cons m ms)
  show ?case
    by (cases "MODIFIERS (str_lower m)") (simp_all add: Cons.IH modifier_keys_of_Cons)
qed

lemma convert_modifiers_frame:
  "kb (snd (convert_modifiers ms acc w)) = kb w \<and>
   scripts (snd (convert_modifiers ms acc w)) = scripts w"
proof (induction ms arbitrary: acc w)
  case Nil
  show ?case by simp
next
  case (Cons m ms)
  show ?case
    by (cases "MODIFIERS (str_lower m)") (simp_all add: Cons.IH)
qed

lemma keyboard_calls_kb_run:
  "keyboard_calls e evs w =
     (fst (kb_run e evs (kb w)), w\<lparr>kb := snd (kb_run e evs (kb w))\<rparr>)"
proof (induction evs arbitrary: w)
  case Nil
  show ?case by simp
next
  case (Cons ev evs)
  show ?case
    by (cases "kb_error e (kb w) ev") (simp_all add: keyboard_call_def Cons.IH)
qed

lemma kb_run_append:
  "kb_run e (xs @ ys) h =
     (case kb_run e xs h of (Some x, h1) \<Rightarrow> (Some x, h1) | (None, h1) \<Rightarrow> kb_run e ys h1)"
proof (induction xs arbitrary: h)
  case Nil
  show ?case by simp
next
  case (Cons ev xs)
  show ?case
    by (cases "kb_error e h ev") (simp_all add: Cons.IH)
qed

lemma dom_APPLESCRIPT_KEY_CODES:
  "dom APPLESCRIPT_KEY_CODES = {''left'', ''right'', ''down'', ''up''}"
  by (auto simp: APPLESCRIPT_KEY_CODES_def split: if_splits)

lemma arrow_condition:
  "((case (case key of None \<Rightarrow> None | Some k \<Rightarrow> if k = [] then None else Some (str_lower k)) of
       None \<Rightarrow> False | Some kl \<Rightarrow> kl \<in> dom APPLESCRIPT_KEY_CODES) \<and> modifiers \<noteq> [])
   = arrow_with_modifiers modifiers key"
  by (auto simp: arrow_with_modifiers_def dom_APPLESCRIPT_KEY_CODES str_lower_def split: option.splits)


lemma convert_modifiers_split:
  "convert_modifiers ms [] w = (modifier_keys_of ms, snd (convert_modifiers ms [] w))"
  using convert_modifiers_keys [of ms "[]" w] by (cases "convert_modifiers ms [] w") simp

lemma press_key_combo_scripting:
  assumes "arrow_with_modifiers modifiers key"
  shows "press_key_combo e modifiers key w =
     (PyNone,
      (if script_ok e modifiers (the key)
       then logger_info (''SUCCESS: /key/['' @ combo_str modifiers key @ '']'')
       else logger_error (''AppleScript method failed for /key/['' @ combo_str modifiers key @ '']''))
        (snd (press_key_with_applescript e modifiers (the key)
           (logger_info ''Using AppleScript method for better app compatibility''
              (logger_info (''PRESSING: /key/['' @ combo_str modifiers key @ '']'')
                 (snd (convert_modifiers modifiers [] w)))))))"
proof -
  have c: "((case (case key of None \<Rightarrow> None | Some k \<Rightarrow> if k = [] then None else Some (str_lower k)) of
       None \<Rightarrow> False | Some kl \<Rightarrow> kl \<in> dom APPLESCRIPT_KEY_CODES) \<and> modifiers \<noteq> [])"
    using assms by (simp add: arrow_condition)
  have s: "\<And>v. fst (press_key_with_applescript e modifiers (the key) v) = PyBool True
             \<longleftrightarrow> script_ok e modifiers (the key)"
    by (simp add: press_key_with_applescript_def script_ok_def Let_def split: run_result.splits)
  show ?thesis
    unfolding press_key_combo_def
    apply (subst convert_modifiers_split)
    apply (simp only: Let_def prod.case c if_True)
    apply (simp add: case_prod_beta s)
    done
qed


lemma keyboard_calls_append:
  "keyboard_calls e (xs @ ys) w =
     (case keyboard_calls e xs w of
        (Some x, w1) \<Rightarrow> (Some x, w1)
      | (None, w1) \<Rightarrow> keyboard_calls e ys w1)"
proof (induction xs arbitrary: w)
  case Nil
  show ?case by simp
next
  case (Cons ev xs)
  show ?case
    by (cases "kb_error e (kb w) ev") (simp_all add: keyboard_call_def Cons.IH)
qed

lemma keyboard_calls_seq:
  "(case keyboard_calls e xs w of
      (Some x, w1) \<Rightarrow> F x w1
    | (None, w1) \<Rightarrow>
        (case keyboard_calls e ys w1 of
           (Some x, w2) \<Rightarrow> F x w2
         | (None, w2) \<Rightarrow> G w2))
   = (case keyboard_calls e (xs @ ys) w of
        (Some x, w2) \<Rightarrow> F x w2
      | (None, w2) \<Rightarrow> G w2)"
proof (cases "keyboard_calls e xs w")
  case (Pair r w1)
  then show ?thesis by (cases r) (simp_all add: keyboard_calls_append)
qed

lemma press_key_combo_direct:
  assumes "\<not> arrow_with_modifiers modifiers key"
  shows "press_key_combo e modifiers key w =
     (PyNone,
      (case fst (kb_run e (direct_events modifiers key) (kb w)) of
         Some x \<Rightarrow> logger_error (''ERROR pressing key combo: '' @ x)
       | None \<Rightarrow> logger_info (''SUCCESS: /key/['' @ combo_str modifiers key @ '']''))
        ((logger_info (''PRESSING: /key/['' @ combo_str modifiers key @ '']'')
            (snd (convert_modifiers modifiers [] w)))
         \<lparr>kb := snd (kb_run e (direct_events modifiers key) (kb w))\<rparr>))"
proof -
  have c: "\<not> ((case (case key of None \<Rightarrow> None | Some k \<Rightarrow> if k = [] then None else Some (str_lower k)) of
       None \<Rightarrow> False | Some kl \<Rightarrow> kl \<in> dom APPLESCRIPT_KEY_CODES) \<and> modifiers \<noteq> [])"
    using assms by (simp add: arrow_condition)
  have m: "(case key of None \<Rightarrow> None
            | Some k \<Rightarrow> (if k = [] then None
                  else (case SPECIAL_KEYS (str_lower k) of
                          Some sk \<Rightarrow> Some (Special sk)
                        | None \<Rightarrow> Some (Character k)))) = main_key_of key"
    by (simp add: main_key_of_def)
  define w2 where "w2 = logger_info (''PRESSING: /key/['' @ combo_str modifiers key @ '']'')
            (snd (convert_modifiers modifiers [] w))"
  have k2: "kb w2 = kb w"
    by (simp add: w2_def convert_modifiers_frame)
  have step: "press_key_combo e modifiers key w =
     (case keyboard_calls e (direct_events modifiers key) w2 of
        (Some x, w5) \<Rightarrow> (PyNone, logger_error (''ERROR pressing key combo: '' @ x) w5)
      | (None, w5) \<Rightarrow>
          (PyNone, logger_info (''SUCCESS: /key/['' @ combo_str modifiers key @ '']'') w5))"
    unfolding press_key_combo_def
    apply (subst convert_modifiers_split)
    apply (simp only: Let_def prod.case c if_False m keyboard_calls_seq)
    apply (simp only: direct_events_def w2_def append_assoc)
    done
  show ?thesis
    unfolding step keyboard_calls_kb_run k2
    by (cases "fst (kb_run e (direct_events modifiers key) (kb w))") (simp_all add: w2_def)
qed


section \<open>Facts about the resolver\<close>

lemma separate_classify:
  "separate args acc =
     (acc @ fst (classify (map (\<lambda>a. str_strip (str a)) args)),
      snd (classify (map (\<lambda>a. str_strip (str a)) args)))"
proof (induction args arbitrary: acc)
  case Nil
  show ?case by (simp add: classify_def)
next
  case (Cons a args)
  show ?case
    by (simp add: Cons.IH classify_def is_modifier_token_def Let_def)
qed

lemma split_from_tokens:
  assumes "t \<in> set (split_from cur cs)" and "list_all (\<lambda>c. \<not> isspace c) cur"
  shows "t \<noteq> [] \<and> list_all (\<lambda>c. \<not> isspace c) t"
  using assms
proof (induction cs arbitrary: cur)
  case Nil
  then show ?case by (simp split: if_splits)
next
  case (Cons c cs)
  show ?case
  proof (cases "isspace c")
    case True
    with Cons.prems have "t = cur \<and> cur \<noteq> [] \<or> t \<in> set (split_from [] cs)"
      by (auto split: if_splits)
    then show ?thesis
      using Cons.IH [of "[]"] Cons.prems(2) by auto
  next
    case False
    with Cons.prems have "t \<in> set (split_from (cur @ [c]) cs)" by simp
    moreover have "list_all (\<lambda>c. \<not> isspace c) (cur @ [c])"
      using False Cons.prems(2) by simp
    ultimately show ?thesis by (rule Cons.IH)
  qed
qed

lemma str_split_tokens:
  "t \<in> set (str_split s) \<Longrightarrow> t \<noteq> [] \<and> list_all (\<lambda>c. \<not> isspace c) t"
  using split_from_tokens [of t "[]" s] by (simp add: str_split_def)

lemma str_strip_no_space:
  assumes "list_all (\<lambda>c. \<not> isspace c) t"
  shows "str_strip t = t"
proof -
  have d: "dropWhile isspace u = u" if "list_all (\<lambda>c. \<not> isspace c) u" for u
    using that by (cases u) simp_all
  have "list_all (\<lambda>c. \<not> isspace c) (rev t)"
    using assms by (simp add: list_all_iff)
  then show ?thesis
    using assms by (simp add: str_strip_def d)
qed

lemma map_strip_split:
  "map (\<lambda>a. str_strip (str a)) (map AStr (str_split s)) = str_split s"
proof -
  have "map str_strip (str_split s) = str_split s"
    by (rule map_idI) (simp add: str_strip_no_space str_split_tokens)
  then show ?thesis by (simp add: comp_def)
qed

lemma space_is_isspace: "isspace (CHR '' '')"
  by (simp add: isspace_def)

lemma split_tokens_have_no_space:
  "t \<in> set (str_split s) \<Longrightarrow> CHR '' '' \<notin> set t"
  using str_split_tokens [of t s] space_is_isspace by (auto simp: list_all_iff)

text \<open>The arguments after the prefix fallback and the split, for an address outside the
  table.\<close>

lemma outcome_with_arguments:
  assumes "custom_shortcuts cfg address = None" and "args \<noteq> []"
  shows "handle_keypress_outcome cfg address args =
     (let modifiers = fst (classify (arg_tokens args));
          key = snd (classify (arg_tokens args))
      in if truthy key \<or> modifiers \<noteq> []
         then Press (''OSC RECEIVED: '' @ address @ '' -> '' @ build_key_path modifiers key)
                modifiers key
         else Dropped (''OSC RECEIVED: '' @ address @ '' -> No valid key or modifier found''))"
proof -
  have ne: "(args = []) = False"
    using assms(2) by simp
  have sep: "separate
       (if length args = 1 \<and> isinstance_str (hd args) \<and> CHR '' '' \<in> set (str (hd args))
        then map AStr (str_split (str (hd args))) else args) []
     = (fst (classify (arg_tokens args)), snd (classify (arg_tokens args)))"
  proof (cases "length args = 1 \<and> isinstance_str (hd args) \<and> CHR '' '' \<in> set (str (hd args))")
    case True
    show ?thesis
      by (simp only: arg_tokens_def if_P [OF True] separate_classify map_strip_split append_Nil)
  next
    case False
    show ?thesis
      by (simp only: arg_tokens_def if_not_P [OF False] separate_classify append_Nil)
  qed
  show ?thesis
    unfolding handle_keypress_outcome_def assms(1)
    by (simp only: option.case ne simp_thms if_False Let_def list.sel sep prod.case)
qed

section \<open>Claims about the address resolver\<close>

text \<open>
  Claim C1.  An address that has an entry in \<open>custom_shortcuts\<close> resolves to the
  modifiers and the key of that entry, whatever arguments the message carries (an absent
  \<open>modifiers\<close> field reads as the empty list): the table is consulted before the prefix
  and before the arguments.
\<close>

theorem exact_entry_wins:
  assumes "custom_shortcuts cfg address = Some shortcut"
  shows "command_of (handle_keypress_outcome cfg address args) =
           Some (case sc_modifiers shortcut of None \<Rightarrow> [] | Some ms \<Rightarrow> ms, sc_key shortcut)"
  using assms by (simp add: handle_keypress_outcome_def Let_def)

theorem exact_entry_wins_witness:
  "custom_shortcuts DEFAULT_CONFIG ''/key/redo'' =
     Some \<lparr>sc_modifiers = Some [''command'', ''shift''], sc_key = Some ''z'',
           sc_description = Some ''Redo''\<rparr>
   \<and> command_of (handle_keypress_outcome DEFAULT_CONFIG ''/key/redo''
                   [AStr ''option'', AStr ''q'', AInt 7])
       = Some ([''command'', ''shift''], Some ''z'')"
proof -
  have h: "custom_shortcuts DEFAULT_CONFIG ''/key/redo'' =
     Some \<lparr>sc_modifiers = Some [''command'', ''shift''], sc_key = Some ''z'',
           sc_description = Some ''Redo''\<rparr>"
    by (simp add: DEFAULT_CONFIG_def)
  show ?thesis
    using h exact_entry_wins [OF h, of "[AStr ''option'', AStr ''q'', AInt 7]"] by simp
qed


text \<open>
  Claim C6.  For an address outside the table and a non-empty argument list, the tokens
  are examined in order, trimmed and without regard to letter case: the leading tokens
  that are modifier aliases are the modifiers, the first token that is not an alias is
  the key, and the tokens after it are not read.  So \<open>command\<close>, \<open>shift\<close>, \<open>z\<close>, \<open>extra\<close>
  gives the modifiers \<open>command\<close>, \<open>shift\<close> and the key \<open>z\<close>.  A command is issued
  when there is a non-empty key or a modifier.
\<close>

theorem classification_first_non_modifier_wins:
  assumes "custom_shortcuts cfg address = None" and "args \<noteq> []"
  shows "command_of (handle_keypress_outcome cfg address args) =
     (let (modifiers, key) = classify (arg_tokens args)
      in if truthy key \<or> modifiers \<noteq> [] then Some (modifiers, key) else None)"
  using assms by (simp add: outcome_with_arguments Let_def case_prod_beta)


theorem classification_first_non_modifier_wins_witness:
  "custom_shortcuts DEFAULT_CONFIG ''/key/foo'' = None
   \<and> [AStr ''command'', AStr ''shift'', AStr ''z'', AStr ''extra''] \<noteq> []
   \<and> command_of (handle_keypress_outcome DEFAULT_CONFIG ''/key/foo''
                   [AStr ''command'', AStr ''shift'', AStr ''z'', AStr ''extra''])
       = Some ([''command'', ''shift''], Some ''z'')
   \<and> command_of (handle_keypress_outcome DEFAULT_CONFIG ''/key/foo''
                   [AStr '' Ctrl '', AStr ''ALT'', AInt 5, AStr ''shift''])
       = Some ([''Ctrl'', ''ALT''], Some ''5'')
   \<and> command_of (handle_keypress_outcome DEFAULT_CONFIG ''/key/foo''
                   [AStr (''shift'' @ [CHR 0xA0]), AStr ''z''])
       = Some ([''shift''], Some ''z'')"
proof -
  have h: "custom_shortcuts DEFAULT_CONFIG ''/key/foo'' = None"
    by (simp add: DEFAULT_CONFIG_def)
  have c1: "classify (arg_tokens [AStr ''command'', AStr ''shift'', AStr ''z'', AStr ''extra''])
              = ([''command'', ''shift''], Some ''z'')"
    by code_simp
  have c2: "classify (arg_tokens [AStr '' Ctrl '', AStr ''ALT'', AInt 5, AStr ''shift''])
              = ([''Ctrl'', ''ALT''], Some ''5'')"
    by code_simp
  have c3: "classify (arg_tokens [AStr (''shift'' @ [CHR 0xA0]), AStr ''z''])
              = ([''shift''], Some ''z'')"
    by code_simp
  show ?thesis
    using c3 classification_first_non_modifier_wins
            [OF h, of "[AStr ''command'', AStr ''shift'', AStr ''z'', AStr ''extra'']"]
          classification_first_non_modifier_wins
            [OF h, of "[AStr '' Ctrl '', AStr ''ALT'', AInt 5, AStr ''shift'']"]
          classification_first_non_modifier_wins
            [OF h, of "[AStr (''shift'' @ [CHR 0xA0]), AStr ''z'']"]
    by (simp add: h c1 c2)
qed

text \<open>
  Claim C7, as the claim states it, fails.  For the address \<open>/key/\<close> followed by a space,
  \<open>shift\<close>, a tab and \<open>z\<close>, with no arguments, the remainder after the prefix is not
  empty and starts with the space.  Were that remainder the single argument, it would
  contain a space, be split, and resolve to the modifier \<open>shift\<close> and the key \<open>z\<close>.  The
  remainder is trimmed first, so the argument has no space, is not split, and resolves
  to the key \<open>shift\<close>, tab, \<open>z\<close> with no modifier.
\<close>

theorem remainder_is_trimmed_before_use:
  "custom_shortcuts DEFAULT_CONFIG (''/key/ shift'' @ [CHR 0x09] @ ''z'') = None
   \<and> startswith (''/key/ shift'' @ [CHR 0x09] @ ''z'') ''/key/''
   \<and> drop 5 (''/key/ shift'' @ [CHR 0x09] @ ''z'') = '' shift'' @ [CHR 0x09] @ ''z''
   \<and> command_of (handle_keypress_outcome DEFAULT_CONFIG
                   (''/key/ shift'' @ [CHR 0x09] @ ''z'') [])
       = Some ([], Some (''shift'' @ [CHR 0x09] @ ''z''))
   \<and> command_of (handle_keypress_outcome DEFAULT_CONFIG
                   (''/key/ shift'' @ [CHR 0x09] @ ''z'')
                   [AStr ('' shift'' @ [CHR 0x09] @ ''z'')])
       = Some ([''shift''], Some ''z'')"
  by code_simp

text \<open>
  Claim C7, amended.  For an address outside the table and no arguments: when the
  address starts with \<open>/key/\<close> and the rest of it, trimmed of surrounding white space,
  is not empty, the message is resolved as if that trimmed rest were its single argument
  (\<open>/key/down\<close> gives no modifiers and the key \<open>down\<close>); otherwise resolution fails with
  the warning that no arguments were provided.  When there are arguments the fallback does
  not fire: the command does not depend on the address.
\<close>

theorem prefix_fallback:
  assumes "custom_shortcuts cfg address = None"
  shows "(startswith address ''/key/'' \<and> str_strip (drop 5 address) \<noteq> [] \<longrightarrow>
            handle_keypress_outcome cfg address []
              = handle_keypress_outcome cfg address [AStr (str_strip (drop 5 address))])
       \<and> (\<not> (startswith address ''/key/'' \<and> str_strip (drop 5 address) \<noteq> []) \<longrightarrow>
            handle_keypress_outcome cfg address []
              = Dropped (''OSC RECEIVED: '' @ address @ '' -> No arguments provided''))
       \<and> (args \<noteq> [] \<and> custom_shortcuts cfg other = None \<longrightarrow>
            command_of (handle_keypress_outcome cfg address args)
              = command_of (handle_keypress_outcome cfg other args))"
proof (intro conjI impI)
  assume "startswith address ''/key/'' \<and> str_strip (drop 5 address) \<noteq> []"
  then show "handle_keypress_outcome cfg address []
               = handle_keypress_outcome cfg address [AStr (str_strip (drop 5 address))]"
    using assms by (simp add: handle_keypress_outcome_def Let_def)
next
  assume "\<not> (startswith address ''/key/'' \<and> str_strip (drop 5 address) \<noteq> [])"
  then show "handle_keypress_outcome cfg address []
               = Dropped (''OSC RECEIVED: '' @ address @ '' -> No arguments provided'')"
    using assms by (auto simp: handle_keypress_outcome_def Let_def)
next
  assume a: "args \<noteq> [] \<and> custom_shortcuts cfg other = None"
  then show "command_of (handle_keypress_outcome cfg address args)
               = command_of (handle_keypress_outcome cfg other args)"
    using assms by (simp add: outcome_with_arguments Let_def)
qed

theorem prefix_fallback_witness:
  "custom_shortcuts DEFAULT_CONFIG ''/key/down'' = None
   \<and> startswith ''/key/down'' ''/key/'' \<and> str_strip (drop 5 ''/key/down'') = ''down''
   \<and> handle_keypress_outcome DEFAULT_CONFIG ''/key/down'' []
       = handle_keypress_outcome DEFAULT_CONFIG ''/key/down'' [AStr ''down'']
   \<and> command_of (handle_keypress_outcome DEFAULT_CONFIG ''/key/down'' []) = Some ([], Some ''down'')
   \<and> custom_shortcuts DEFAULT_CONFIG ''/key/'' = None
   \<and> handle_keypress_outcome DEFAULT_CONFIG ''/key/'' []
       = Dropped ''OSC RECEIVED: /key/ -> No arguments provided''
   \<and> custom_shortcuts DEFAULT_CONFIG ''/key'' = None
   \<and> handle_keypress_outcome DEFAULT_CONFIG ''/key'' []
       = Dropped ''OSC RECEIVED: /key -> No arguments provided''
   \<and> command_of (handle_keypress_outcome DEFAULT_CONFIG ''/key/down'' [AStr ''shift'', AStr ''x''])
       = command_of (handle_keypress_outcome DEFAULT_CONFIG ''/key'' [AStr ''shift'', AStr ''x''])
   \<and> custom_shortcuts DEFAULT_CONFIG (''/key/'' @ [CHR 0xA0]) = None
   \<and> handle_keypress_outcome DEFAULT_CONFIG (''/key/'' @ [CHR 0xA0]) []
       = Dropped (''OSC RECEIVED: /key/'' @ [CHR 0xA0] @ '' -> No arguments provided'')"
proof -
  have h1: "custom_shortcuts DEFAULT_CONFIG ''/key/down'' = None"
    by (simp add: DEFAULT_CONFIG_def)
  have h2: "custom_shortcuts DEFAULT_CONFIG ''/key/'' = None"
    by (simp add: DEFAULT_CONFIG_def)
  have h3: "custom_shortcuts DEFAULT_CONFIG ''/key'' = None"
    by (simp add: DEFAULT_CONFIG_def)
  have p1: "startswith ''/key/down'' ''/key/''" and p2: "startswith ''/key/'' ''/key/''"
    and p3: "\<not> startswith ''/key'' ''/key/''"
    by (simp_all add: startswith_def)
  have h4: "custom_shortcuts DEFAULT_CONFIG (''/key/'' @ [CHR 0xA0]) = None"
    by (simp add: DEFAULT_CONFIG_def)
  have r1: "str_strip ''down'' = ''down''" and r2: "str_strip [] = []"
    and r3: "str_strip [CHR 0xA0] = []"
    by (simp_all add: str_strip_def isspace_def)
  have d: "command_of (handle_keypress_outcome DEFAULT_CONFIG ''/key/down'' [AStr ''down''])
             = Some ([], Some ''down'')"
    by code_simp
  show ?thesis
    using h4 prefix_fallback [OF h1, of "[AStr ''shift'', AStr ''x'']" "''/key''"]
          prefix_fallback [OF h2, of "[]" "''/key''"]
          prefix_fallback [OF h3, of "[]" "''/key''"]
          prefix_fallback [OF h4, of "[]" "''/key''"]
    by (simp add: h1 h2 h3 p1 p2 p3 r1 r2 r3 d startswith_def)
qed

text \<open>
  Claim C8, as the claim states it, fails: a single string whose words are separated by
  tabs contains white space and is not split; the whole string becomes the key.  The
  test that guards the split looks for a space character.
\<close>

theorem tab_separated_string_is_not_split:
  "list_ex isspace (''command'' @ [CHR 0x09] @ ''shift'' @ [CHR 0x09] @ ''z'')
   \<and> command_of (handle_keypress_outcome DEFAULT_CONFIG ''/key/foo''
                   [AStr (''command'' @ [CHR 0x09] @ ''shift'' @ [CHR 0x09] @ ''z'')])
       = Some ([], Some (''command'' @ [CHR 0x09] @ ''shift'' @ [CHR 0x09] @ ''z''))
   \<and> command_of (handle_keypress_outcome DEFAULT_CONFIG ''/key/foo''
                   [AStr ''command'', AStr ''shift'', AStr ''z''])
       = Some ([''command'', ''shift''], Some ''z'')"
  by code_simp

text \<open>
  Claim C8, amended.  A single string argument that contains a space character is split
  on white space before classification: for an address outside the table, the tokens
  classified are the words of the string.  When the string has a word, the message is
  resolved exactly as the message that carries the words as separate arguments.  So
  \<open>command shift z\<close> resolves as \<open>command\<close>, \<open>shift\<close>, \<open>z\<close> do.
\<close>

theorem combined_string_is_split:
  assumes "CHR '' '' \<in> set s"
  shows "(custom_shortcuts cfg address = None \<longrightarrow>
            command_of (handle_keypress_outcome cfg address [AStr s]) =
              (let (modifiers, key) = classify (str_split s)
               in if truthy key \<or> modifiers \<noteq> [] then Some (modifiers, key) else None))
       \<and> (str_split s \<noteq> [] \<longrightarrow>
            handle_keypress_outcome cfg address [AStr s]
              = handle_keypress_outcome cfg address (map AStr (str_split s)))"
proof (intro conjI impI)
  have ne1: "[AStr s] \<noteq> []"
    by simp
  have one: "arg_tokens [AStr s] = str_split s"
    using assms by (simp add: arg_tokens_def)
  {
    assume None: "custom_shortcuts cfg address = None"
    show "command_of (handle_keypress_outcome cfg address [AStr s]) =
            (let (modifiers, key) = classify (str_split s)
             in if truthy key \<or> modifiers \<noteq> [] then Some (modifiers, key) else None)"
      by (simp add: outcome_with_arguments [OF None ne1] one Let_def case_prod_beta)
  }
  assume words: "str_split s \<noteq> []"
  show "handle_keypress_outcome cfg address [AStr s]
          = handle_keypress_outcome cfg address (map AStr (str_split s))"
  proof (cases "custom_shortcuts cfg address")
    case (Some shortcut)
    then show ?thesis by (simp add: handle_keypress_outcome_def)
  next
    case None
    have "\<not> (length (map AStr (str_split s)) = 1 \<and> isinstance_str (hd (map AStr (str_split s)))
              \<and> CHR '' '' \<in> set (str (hd (map AStr (str_split s)))))"
      using split_tokens_have_no_space [of "hd (str_split s)" s] words
      by (auto simp: hd_map)
    then have many: "arg_tokens (map AStr (str_split s)) = str_split s"
      by (simp only: arg_tokens_def if_False map_strip_split)
    have ne: "map AStr (str_split s) \<noteq> []"
      using words by simp
    show ?thesis
      by (simp only: outcome_with_arguments [OF None ne] outcome_with_arguments [OF None ne1]
            one many)
  qed
qed

theorem combined_string_is_split_witness:
  "CHR '' '' \<in> set ''command shift z''
   \<and> custom_shortcuts DEFAULT_CONFIG ''/key/foo'' = None
   \<and> str_split ''command shift z'' = [''command'', ''shift'', ''z'']
   \<and> handle_keypress_outcome DEFAULT_CONFIG ''/key/foo'' [AStr ''command shift z'']
       = handle_keypress_outcome DEFAULT_CONFIG ''/key/foo''
           [AStr ''command'', AStr ''shift'', AStr ''z'']
   \<and> command_of (handle_keypress_outcome DEFAULT_CONFIG ''/key/foo'' [AStr ''command shift z''])
       = Some ([''command'', ''shift''], Some ''z'')
   \<and> CHR '' '' \<in> set (''shift'' @ [CHR 0xA0] @ ''z x'')
   \<and> command_of (handle_keypress_outcome DEFAULT_CONFIG ''/key/foo''
                   [AStr (''shift'' @ [CHR 0xA0] @ ''z x'')])
       = Some ([''shift''], Some ''z'')"
proof -
  have a: "CHR '' '' \<in> set ''command shift z''" by simp
  have a2: "CHR '' '' \<in> set (''shift'' @ [CHR 0xA0] @ ''z x'')" by simp
  have h: "custom_shortcuts DEFAULT_CONFIG ''/key/foo'' = None"
    by (simp add: DEFAULT_CONFIG_def)
  have b: "str_split ''command shift z'' = [''command'', ''shift'', ''z'']"
    by (simp add: str_split_def isspace_def)
  have c: "command_of (handle_keypress_outcome DEFAULT_CONFIG ''/key/foo''
                   [AStr ''command'', AStr ''shift'', AStr ''z''])
       = Some ([''command'', ''shift''], Some ''z'')"
    by code_simp
  have k: "classify (str_split (''shift'' @ [CHR 0xA0] @ ''z x'')) = ([''shift''], Some ''z'')"
    by code_simp
  show ?thesis
    using k combined_string_is_split [OF a, of DEFAULT_CONFIG "''/key/foo''"]
          combined_string_is_split [OF a2, of DEFAULT_CONFIG "''/key/foo''"]
    by (simp add: h b c)
qed

section \<open>Claims about the key executor\<close>

lemma press_key_with_applescript_effects:
  "scripts (snd (press_key_with_applescript e modifiers key w))
     = scripts w @ [build_applescript modifiers key]"
  "kb (snd (press_key_with_applescript e modifiers key w)) = kb w"
  by (simp_all add: press_key_with_applescript_def Let_def split: run_result.splits)

text \<open>
  Claim C5.  \<open>press_key_combo\<close> hands the command to the scripting backend exactly when
  the key is one of \<open>left\<close>, \<open>right\<close>, \<open>up\<close>, \<open>down\<close> (in any letter case) and the list
  of modifiers is not empty: then one script is run and the keyboard controller is not
  touched.  In every other case, an arrow key without modifiers and no key at all among
  them, no script is run and the keyboard controller receives the calls of the direct
  backend.
\<close>

theorem backend_selection:
  "scripts (snd (press_key_combo e modifiers key w)) =
     (if arrow_with_modifiers modifiers key
      then scripts w @ [build_applescript modifiers (the key)] else scripts w)
   \<and> kb (snd (press_key_combo e modifiers key w)) =
     (if arrow_with_modifiers modifiers key then kb w
      else snd (kb_run e (direct_events modifiers key) (kb w)))"
proof (cases "arrow_with_modifiers modifiers key")
  case True
  then show ?thesis
    by (simp add: press_key_combo_scripting press_key_with_applescript_effects
          convert_modifiers_frame)
next
  case False
  then show ?thesis
    by (cases "fst (kb_run e (direct_events modifiers key) (kb w))")
       (simp_all add: press_key_combo_direct convert_modifiers_frame)
qed

theorem backend_selection_witness:
  \<open>scripts (snd (press_key_combo quiet_env [''cmd''] (Some ''Left'') initial_world))
     = [''tell application "System Events" to key code 123 using {command down}'']
   \<and> kb (snd (press_key_combo quiet_env [''cmd''] (Some ''Left'') initial_world)) = []
   \<and> scripts (snd (press_key_combo quiet_env [] (Some ''left'') initial_world)) = []
   \<and> kb (snd (press_key_combo quiet_env [] (Some ''left'') initial_world))
     = [KbPress (Special Key_left), KbRelease (Special Key_left)]
   \<and> scripts (snd (press_key_combo quiet_env [''cmd''] None initial_world)) = []
   \<and> kb (snd (press_key_combo quiet_env [''cmd''] None initial_world))
     = [KbPress (Special Key_cmd), KbRelease (Special Key_cmd)]\<close>
proof -
  have a: "arrow_with_modifiers [''cmd''] (Some ''Left'')"
    by (simp add: arrow_with_modifiers_def str_lower_def lower_char_def)
  have b: "\<not> arrow_with_modifiers [] (Some ''left'')"
    by (simp add: arrow_with_modifiers_def)
  have c: "\<not> arrow_with_modifiers [''cmd''] None"
    by (simp add: arrow_with_modifiers_def)
  have s: \<open>build_applescript [''cmd''] ''Left''
             = ''tell application "System Events" to key code 123 using {command down}''\<close>
    by (simp add: build_applescript_def str_lower_def lower_char_def APPLESCRIPT_KEY_CODES_def)
  have d1: "snd (kb_run quiet_env (direct_events [] (Some ''left'')) [])
              = [KbPress (Special Key_left), KbRelease (Special Key_left)]"
    by (simp add: direct_events_def modifier_keys_of_def List.map_filter_simps main_key_of_def
          SPECIAL_KEYS_def str_lower_def lower_char_def quiet_env_def)
  have d2: "snd (kb_run quiet_env (direct_events [''cmd''] None) [])
              = [KbPress (Special Key_cmd), KbRelease (Special Key_cmd)]"
    by (simp add: direct_events_def modifier_keys_of_def List.map_filter_simps main_key_of_def
          MODIFIERS_def str_lower_def lower_char_def quiet_env_def)
  show ?thesis
    using backend_selection [of quiet_env "[''cmd'']" "Some ''Left''" initial_world]
      backend_selection [of quiet_env "[]" "Some ''left''" initial_world]
      backend_selection [of quiet_env "[''cmd'']" None initial_world]
    by (simp add: a b c s d1 d2 initial_world_def)
qed

text \<open>
  On the direct backend, when no call of the keyboard controller raises, the operating
  system receives the presses of the modifiers in order, the press and the release of the
  main key, and the releases of the modifiers in reverse order.
\<close>

lemma direct_backend_releases_in_reverse:
  assumes "\<not> arrow_with_modifiers modifiers key" and "\<And>h ev. kb_error e h ev = None"
  shows "kb (snd (press_key_combo e modifiers key w)) = kb w @ direct_events modifiers key"
proof -
  have r: "kb_run e evs h = (None, h @ evs)" for evs h
    by (induction evs arbitrary: h) (simp_all add: assms(2))
  show ?thesis
    using assms(1) by (simp add: press_key_combo_direct r)
qed

text \<open>
  Claim C2.  The claim asks that every pressed modifier is released on the failure path
  as well.  The releases stand at the end of the \<open>try\<close> block and there is no \<open>finally\<close>:
  with a controller that rejects a key of several characters, \<open>command\<close> + \<open>foo\<close> presses
  the command key, the press of the main key raises, the handler logs the error, and the
  command key is never released.
\<close>

theorem modifier_stays_pressed_when_key_press_raises:
  "kb (snd (press_key_combo pynput_env [''command''] (Some ''foo'') initial_world))
     = [KbPress (Special Key_cmd)]
   \<and> last (logged (snd (press_key_combo pynput_env [''command''] (Some ''foo'') initial_world)))
     = (ERROR, ''ERROR pressing key combo: foo'')"
  by code_simp

text \<open>
  Claim C4, as the claim states it, fails: a call that succeeds returns \<open>None\<close>, not
  \<open>True\<close>.
\<close>

theorem press_key_combo_returns_none_on_success:
  "fst (press_key_combo quiet_env [''command''] (Some ''s'') initial_world) = PyNone
   \<and> fst (press_key_combo quiet_env [''command''] (Some ''s'') initial_world) \<noteq> PyBool True
   \<and> last (logged (snd (press_key_combo quiet_env [''command''] (Some ''s'') initial_world)))
     = (INFO, ''SUCCESS: /key/[Command+S]'')"
  by code_simp

text \<open>
  Claim C4, amended.  \<open>press_key_combo\<close> returns \<open>None\<close> on every call and no exception
  leaves it.  The result is reported in the log only: when a call of the keyboard
  controller raises or the scripting invocation fails, the last record is an \<open>ERROR\<close>
  record; otherwise the last record is the \<open>INFO\<close> record \<open>SUCCESS\<close>.
\<close>

theorem press_key_combo_reports_in_log:
  "fst (press_key_combo e modifiers key w) = PyNone
   \<and> (backend_failed e modifiers key w \<longrightarrow>
        fst (last (logged (snd (press_key_combo e modifiers key w)))) = ERROR)
   \<and> (\<not> backend_failed e modifiers key w \<longrightarrow>
        last (logged (snd (press_key_combo e modifiers key w)))
          = (INFO, ''SUCCESS: /key/['' @ combo_str modifiers key @ '']''))"
proof (cases "arrow_with_modifiers modifiers key")
  case True
  then show ?thesis
    by (simp add: press_key_combo_scripting backend_failed_def)
next
  case False
  then show ?thesis
    by (cases "fst (kb_run e (direct_events modifiers key) (kb w))")
       (simp_all add: press_key_combo_direct backend_failed_def)
qed

theorem press_key_combo_reports_in_log_witness:
  "backend_failed pynput_env [''command''] (Some ''foo'') initial_world
   \<and> fst (press_key_combo pynput_env [''command''] (Some ''foo'') initial_world) = PyNone
   \<and> fst (last (logged (snd (press_key_combo pynput_env [''command''] (Some ''foo'')
                                 initial_world)))) = ERROR
   \<and> backend_failed failing_script_env [''shift''] (Some ''up'') initial_world
   \<and> fst (last (logged (snd (press_key_combo failing_script_env [''shift''] (Some ''up'')
                                 initial_world)))) = ERROR
   \<and> \<not> backend_failed quiet_env [''command''] (Some ''s'') initial_world
   \<and> last (logged (snd (press_key_combo quiet_env [''command''] (Some ''s'') initial_world)))
       = (INFO, ''SUCCESS: /key/[Command+S]'')"
proof -
  have f1: "backend_failed pynput_env [''command''] (Some ''foo'') initial_world"
    by code_simp
  have f2: "backend_failed failing_script_env [''shift''] (Some ''up'') initial_world"
    by code_simp
  have f3: "\<not> backend_failed quiet_env [''command''] (Some ''s'') initial_world"
    by code_simp
  have c: "combo_str [''command''] (Some ''s'') = ''Command+S''"
    by code_simp
  show ?thesis
    using press_key_combo_reports_in_log
            [of pynput_env "[''command'']" "Some ''foo''" initial_world]
          press_key_combo_reports_in_log
            [of failing_script_env "[''shift'']" "Some ''up''" initial_world]
          press_key_combo_reports_in_log
            [of quiet_env "[''command'']" "Some ''s''" initial_world]
    by (simp add: f1 f2 f3 c)
qed


section \<open>Claims about the listener and the control surface\<close>

text \<open>
  \<open>restart_osc_server\<close> answers \<open>True\<close> as soon as the old server has been shut down
  and the new thread has been started; what happens to the socket inside the thread does
  not reach it.  Neither restarting nor starting the server touches the configuration or
  the file, and \<open>update_osc_config\<close> stores and writes whatever port the request holds.
\<close>

lemma restart_succeeds_whatever_bind_does:
  assumes "shutdown_error e = None"
  shows "fst (restart_osc_server e w) = PyBool True"
  using assms by (simp add: restart_osc_server_def Let_def)

lemma start_osc_server_frame:
  "config (start_osc_server e w) = config w \<and> disk (start_osc_server e w) = disk w"
  by (simp add: start_osc_server_def Let_def split: option.splits)

lemma restart_osc_server_frame:
  "config (snd (restart_osc_server e w)) = config w
   \<and> disk (snd (restart_osc_server e w)) = disk w"
  by (simp add: restart_osc_server_def Let_def start_osc_server_frame split: option.splits)

lemma update_osc_config_persists_any_port:
  assumes "write_error e = None"
  shows "osc_port (config (snd (update_osc_config e (Json \<lparr>req_ip = i, req_port = Some p\<rparr>) w))) = p
         \<and> stored_port (disk (snd (update_osc_config e (Json \<lparr>req_ip = i, req_port = Some p\<rparr>) w)))
             = Some p"
  using assms
  by (simp add: update_osc_config_def Let_def case_prod_beta restart_osc_server_frame
        save_config_def document_of_def)

text \<open>
  Claim C3.  The claim asks that a rebuild whose socket cannot be bound is reported to the
  caller as a failure.  \<open>start_osc_server\<close> catches the exception of the bind inside the
  listener thread and only logs it, and \<open>restart_osc_server\<close> returns \<open>True\<close> without
  looking at the new server: with port 9000 taken, \<open>update_osc_config\<close> answers success
  with the message \<open>Configuration updated\<close> while no listener is running.
\<close>

theorem failed_bind_reported_as_success:
  "fst (update_osc_config port_taken_env
          (Json \<lparr>req_ip = Some ''0.0.0.0'', req_port = Some 9000\<rparr>) running_world)
     = \<lparr>success = True, message = ''Configuration updated''\<rparr>
   \<and> osc_server_instance (snd (update_osc_config port_taken_env
          (Json \<lparr>req_ip = Some ''0.0.0.0'', req_port = Some 9000\<rparr>) running_world)) = None
   \<and> logged (snd (update_osc_config port_taken_env
          (Json \<lparr>req_ip = Some ''0.0.0.0'', req_port = Some 9000\<rparr>) running_world))
     = [(INFO, ''Configuration saved''), (INFO, ''Stopping OSC server...''),
        (ERROR, ''Error starting OSC server: [Errno 48] Address already in use''),
        (INFO, ''OSC server restarted'')]"
  by code_simp

text \<open>
  Claim C9.  The claim asks that a port outside 1024 to 65535 is rejected and not
  persisted.  \<open>update_osc_config\<close> assigns the port of the request without any test:
  port 80 becomes the port of the configuration and of the configuration file, the listener
  is rebuilt on it, and the answer is success.
\<close>

theorem privileged_port_is_persisted:
  "success (fst (update_osc_config quiet_env
          (Json \<lparr>req_ip = Some ''0.0.0.0'', req_port = Some 80\<rparr>) running_world))
   \<and> osc_port (config (snd (update_osc_config quiet_env
          (Json \<lparr>req_ip = Some ''0.0.0.0'', req_port = Some 80\<rparr>) running_world))) = 80
   \<and> stored_port (disk (snd (update_osc_config quiet_env
          (Json \<lparr>req_ip = Some ''0.0.0.0'', req_port = Some 80\<rparr>) running_world))) = Some 80
   \<and> osc_server_instance (snd (update_osc_config quiet_env
          (Json \<lparr>req_ip = Some ''0.0.0.0'', req_port = Some 80\<rparr>) running_world))
       = Some (''0.0.0.0'', 80)"
  by code_simp

section \<open>Claims about persistence\<close>

text \<open>
  Claim C10.  At start-up, when the configuration file holds a document, \<open>load_config\<close>
  updates the defaults key by key at the top level: \<open>osc_ip\<close>, \<open>osc_port\<close> and
  \<open>custom_shortcuts\<close> each take the value of the file when the file has the key and keep
  the built-in default when it has not.  The shortcut table of the file replaces the
  default table as a whole: a default entry that the file's table lacks is gone.
\<close>

theorem load_config_top_level_update:
  assumes "disk w = Stored d" and "config w = DEFAULT_CONFIG"
  shows "osc_ip (config (load_config e w)) = (case doc_ip d of Some i \<Rightarrow> i | None \<Rightarrow> ''0.0.0.0'')
       \<and> osc_port (config (load_config e w)) = (case doc_port d of Some p \<Rightarrow> p | None \<Rightarrow> 5005)
       \<and> custom_shortcuts (config (load_config e w))
           = (case doc_shortcuts d of Some t \<Rightarrow> t | None \<Rightarrow> custom_shortcuts DEFAULT_CONFIG)"
  using assms
  by (simp add: load_config_def dict_update_def DEFAULT_CONFIG_def split: option.splits)

theorem load_config_top_level_update_witness:
  "disk world_with_partial_document = Stored partial_document
   \<and> config world_with_partial_document = DEFAULT_CONFIG
   \<and> osc_ip (config (load_config quiet_env world_with_partial_document)) = ''127.0.0.1''
   \<and> osc_port (config (load_config quiet_env world_with_partial_document)) = 5005
   \<and> custom_shortcuts (config (load_config quiet_env world_with_partial_document)) ''/key/save''
       = None
   \<and> custom_shortcuts (config (load_config quiet_env world_with_partial_document)) ''/key/quit''
       = Some \<lparr>sc_modifiers = Some [''command''], sc_key = Some ''q'', sc_description = None\<rparr>"
proof -
  have h1: "disk world_with_partial_document = Stored partial_document"
    by (simp add: world_with_partial_document_def)
  have h2: "config world_with_partial_document = DEFAULT_CONFIG"
    by (simp add: world_with_partial_document_def initial_world_def)
  show ?thesis
    using load_config_top_level_update [OF h1 h2, of quiet_env]
    by (simp add: h1 h2 partial_document_def)
qed

end
